theory Spec2Isabelle
  imports Complex_Main "HOL-Library.Log_Nat" "HOL-Library.AList"
begin

section \<open>Python values used by the progression and persistence core\<close>

subsection \<open>Exceptions\<close>

text \<open>
  The exceptions the modelled functions can raise. A function that can raise returns
  \<open>error + 'a\<close>, with \<open>Inl\<close> for the exception.
\<close>

datatype error = ValueError | OSError | AttributeError | TypeError | KeyError

subsection \<open>Floats (IEEE-754 binary64)\<close>

text \<open>
  A Python float is a binary64 value: a finite value is kept as the rational it denotes,
  next to the two infinities and NaN. The sign of zero is not kept (nothing in the
  modelled code observes it).
\<close>

datatype pyfloat = Fin rat | PInf | NInf | NaN

text \<open>
  \<open>floor_log2 x\<close> is the binary exponent of a positive rational:
  \<open>2 powi floor_log2 x \<le> x < 2 powi (floor_log2 x + 1)\<close>.
\<close>

definition floor_log2 :: "rat \<Rightarrow> int" where
  "floor_log2 x = (if 1 \<le> x then bitlen \<lfloor>x\<rfloor> - 1 else - bitlen (\<lceil>1 / x\<rceil> - 1))"

text \<open>Rounding a rational to the nearest integer, ties to the even one.\<close>

definition round_half_even :: "rat \<Rightarrow> int" where
  "round_half_even x =
     (let f = \<lfloor>x\<rfloor>; d = x - of_int f
      in if d < 1 / 2 then f
         else if 1 / 2 < d then f + 1
         else if even f then f else f + 1)"

text \<open>
  Rounding a rational to binary64 precision (53 significant bits, the exponent not below
  that of the subnormal numbers), before the overflow check.
\<close>

definition round_double :: "rat \<Rightarrow> rat" where
  "round_double x =
     (if x = 0 then 0
      else let e = max (floor_log2 \<bar>x\<bar>) (- 1022); u = 2 powi (e - 52)
           in sgn x * of_int (round_half_even (\<bar>x\<bar> / u)) * u)"

text \<open>The result of a float operation whose exact value is \<open>x\<close>: rounded, or infinite on overflow.\<close>

definition rnd :: "rat \<Rightarrow> pyfloat" where
  "rnd x =
     (let v = round_double x
      in if 2 ^ 1024 \<le> v then PInf else if v \<le> - (2 ^ 1024) then NInf else Fin v)"

text \<open>
  \<open>float(i)\<close> for an integer that a float operand is mixed with. (Python raises
  OverflowError for an integer beyond the float range; \<open>float_of_int\<close> is only applied
  to the bounded integers of the configuration tables and to list lengths.)
\<close>

definition float_of_int :: "int \<Rightarrow> pyfloat" where
  "float_of_int i = rnd (of_int i)"

fun fadd :: "pyfloat \<Rightarrow> pyfloat \<Rightarrow> pyfloat" where
  "fadd NaN _ = NaN"
| "fadd _ NaN = NaN"
| "fadd PInf NInf = NaN"
| "fadd NInf PInf = NaN"
| "fadd PInf _ = PInf"
| "fadd _ PInf = PInf"
| "fadd NInf _ = NInf"
| "fadd _ NInf = NInf"
| "fadd (Fin a) (Fin b) = rnd (a + b)"

fun fmul :: "pyfloat \<Rightarrow> pyfloat \<Rightarrow> pyfloat" where
  "fmul NaN _ = NaN"
| "fmul _ NaN = NaN"
| "fmul (Fin a) (Fin b) = rnd (a * b)"
| "fmul (Fin a) PInf = (if a = 0 then NaN else if 0 < a then PInf else NInf)"
| "fmul (Fin a) NInf = (if a = 0 then NaN else if 0 < a then NInf else PInf)"
| "fmul PInf (Fin b) = (if b = 0 then NaN else if 0 < b then PInf else NInf)"
| "fmul NInf (Fin b) = (if b = 0 then NaN else if 0 < b then NInf else PInf)"
| "fmul PInf PInf = PInf"
| "fmul PInf NInf = NInf"
| "fmul NInf PInf = NInf"
| "fmul NInf NInf = PInf"

text \<open>The comparison \<open>a < b\<close> of two floats: false as soon as one of them is NaN.\<close>

fun flt :: "pyfloat \<Rightarrow> pyfloat \<Rightarrow> bool" where
  "flt NaN _ = False"
| "flt _ NaN = False"
| "flt (Fin a) (Fin b) = (a < b)"
| "flt NInf NInf = False"
| "flt NInf _ = True"
| "flt _ NInf = False"
| "flt PInf _ = False"
| "flt _ PInf = True"

section \<open>progression.py: SRS mastery stages\<close>

datatype MasteryStage = NEW | LEARNING | REVIEW | MASTERED

fun stage_value :: "MasteryStage \<Rightarrow> int" where
  "stage_value NEW = 0"
| "stage_value LEARNING = 1"
| "stage_value REVIEW = 2"
| "stage_value MASTERED = 3"

text \<open>The enum constructor \<open>MasteryStage(v)\<close>: ValueError for an integer that is no stage.\<close>

definition MasteryStage_of :: "int \<Rightarrow> error + MasteryStage" where
  "MasteryStage_of v =
     (if v = 0 then Inr NEW
      else if v = 1 then Inr LEARNING
      else if v = 2 then Inr REVIEW
      else if v = 3 then Inr MASTERED
      else Inl ValueError)"

fun STAGE_NAMES :: "MasteryStage \<Rightarrow> string" where
  "STAGE_NAMES NEW = ''new''"
| "STAGE_NAMES LEARNING = ''learning''"
| "STAGE_NAMES REVIEW = ''review''"
| "STAGE_NAMES MASTERED = ''mastered''"

text \<open>config.py: the base review interval of each stage name, in hours.\<close>

definition SRS_STAGES :: "(string \<times> int) list" where
  "SRS_STAGES = [(''new'', 0), (''learning'', 4), (''review'', 24), (''mastered'', 168)]"

section \<open>progression.py: SRSItem\<close>

record SRSItem =
  item_id :: string
  stage :: MasteryStage
  consecutive_correct :: int
  total_correct :: int
  total_attempts :: int
  last_reviewed :: pyfloat
  next_review :: pyfloat

text \<open>The constructor with its default arguments: a fresh item.\<close>

definition SRSItem_init :: "string \<Rightarrow> SRSItem" where
  "SRSItem_init iid =
     \<lparr>item_id = iid, stage = NEW, consecutive_correct = 0, total_correct = 0,
      total_attempts = 0, last_reviewed = Fin 0, next_review = Fin 0\<rparr>"

text \<open>
  The stage update of \<open>record_answer\<close>: the branch on \<open>correct\<close>, applied to the item
  whose \<open>total_attempts\<close> and \<open>last_reviewed\<close> are already updated.
\<close>

definition update_stage :: "bool \<Rightarrow> int \<Rightarrow> SRSItem \<Rightarrow> error + SRSItem" where
  "update_stage correct consecutive_to_master self =
     (if correct then
        (let self = self\<lparr>total_correct := total_correct self + 1\<rparr>;
             self = self\<lparr>consecutive_correct := consecutive_correct self + 1\<rparr>
         in if consecutive_correct self \<ge> consecutive_to_master then
              (if stage_value (stage self) < stage_value MASTERED then
                 (case MasteryStage_of (stage_value (stage self) + 1) of
                    Inl e \<Rightarrow> Inl e
                  | Inr s \<Rightarrow> Inr (self\<lparr>stage := s, consecutive_correct := 0\<rparr>))
               else Inr self)
            else Inr self)
      else
        (let self = self\<lparr>consecutive_correct := 0\<rparr>
         in if stage_value (stage self) > stage_value NEW then
              (case MasteryStage_of (stage_value (stage self) - 1) of
                 Inl e \<Rightarrow> Inl e
               | Inr s \<Rightarrow> Inr (self\<lparr>stage := s\<rparr>))
            else Inr self))"

text \<open>
  \<open>SRSItem.record_answer\<close>. The clock reading \<open>time.time()\<close> is the argument \<open>now\<close>;
  the result is the returned stage and the mutated item.
\<close>

definition record_answer ::
  "pyfloat \<Rightarrow> bool \<Rightarrow> int \<Rightarrow> pyfloat \<Rightarrow> SRSItem \<Rightarrow> error + (MasteryStage \<times> SRSItem)" where
  "record_answer now correct consecutive_to_master srs_interval_mult self =
     (let self = self\<lparr>total_attempts := total_attempts self + 1\<rparr>;
          self = self\<lparr>last_reviewed := now\<rparr>
      in case update_stage correct consecutive_to_master self of
           Inl e \<Rightarrow> Inl e
         | Inr self \<Rightarrow>
             (let base_hours = (case map_of SRS_STAGES (STAGE_NAMES (stage self)) of
                                  Some h \<Rightarrow> h | None \<Rightarrow> 0);
                  interval_seconds = fmul (float_of_int (base_hours * 3600)) srs_interval_mult;
                  self = self\<lparr>next_review := fadd now interval_seconds\<rparr>
              in Inr (stage self, self)))"

text \<open>
  A sequence of \<open>record_answer\<close> calls on one item, each call with its own clock reading,
  answer, threshold and interval multiplier; an exception ends the sequence.
\<close>

record answer =
  at_time :: pyfloat
  is_correct :: bool
  threshold :: int
  interval_mult :: pyfloat

fun record_answers :: "answer list \<Rightarrow> SRSItem \<Rightarrow> error + SRSItem" where
  "record_answers [] self = Inr self"
| "record_answers (a # as) self =
     (case record_answer (at_time a) (is_correct a) (threshold a) (interval_mult a) self of
        Inl e \<Rightarrow> Inl e
      | Inr (_, self') \<Rightarrow> record_answers as self')"

section \<open>Save data: JSON documents and dictionaries\<close>

text \<open>
  A save record is a Python dictionary as \<open>json.load\<close> builds it. A dictionary is an
  association list in insertion order: \<open>map_of d k\<close> is \<open>d.get(k)\<close>, \<open>dict_set d k v\<close>
  is \<open>d[k] = v\<close> (an existing key keeps its place, a new key goes to the end). A string
  is the list of its characters.
\<close>

datatype json =
    JNull
  | JBool bool
  | JInt int
  | JFloat pyfloat
  | JStr string
  | JList "json list"
  | JDict "(string \<times> json) list"

type_synonym dict = "(string \<times> json) list"

definition has_key :: "dict \<Rightarrow> string \<Rightarrow> bool" where
  "has_key d k = (map_of d k \<noteq> None)"

definition dict_set :: "dict \<Rightarrow> string \<Rightarrow> json \<Rightarrow> dict" where
  "dict_set d k v = AList.update k v d"

text \<open>\<open>isinstance\<close> tests. In Python \<open>bool\<close> is a subclass of \<open>int\<close>.\<close>

fun is_dict :: "json option \<Rightarrow> bool" where
  "is_dict (Some (JDict _)) = True"
| "is_dict _ = False"

fun is_list :: "json option \<Rightarrow> bool" where
  "is_list (Some (JList _)) = True"
| "is_list _ = False"

fun is_int :: "json option \<Rightarrow> bool" where
  "is_int (Some (JInt _)) = True"
| "is_int (Some (JBool _)) = True"
| "is_int _ = False"

fun is_int_or_float :: "json option \<Rightarrow> bool" where
  "is_int_or_float (Some (JInt _)) = True"
| "is_int_or_float (Some (JBool _)) = True"
| "is_int_or_float (Some (JFloat _)) = True"
| "is_int_or_float _ = False"

text \<open>\<open>s.startswith(p)\<close>\<close>

definition startswith :: "string \<Rightarrow> string \<Rightarrow> bool" where
  "startswith s p = (take (length p) s = p)"

section \<open>config.py\<close>

definition MAX_SAVE_SLOTS :: int where
  "MAX_SAVE_SLOTS = 6"

definition DEFAULT_DIFFICULTY :: string where
  "DEFAULT_DIFFICULTY = ''normal''"

record monument =
  name :: string
  category :: string
  unlock_requires :: "string option"

text \<open>
  The monument table (the Japanese name and the description of each entry are left out:
  no modelled function reads them).
\<close>

definition MONUMENTS :: "(int \<times> monument) list" where
  "MONUMENTS =
     [(0, \<lparr>name = ''Hiragana Temple'', category = ''hiragana'', unlock_requires = None\<rparr>),
      (1, \<lparr>name = ''Katakana Shrine'', category = ''katakana'', unlock_requires = Some ''hiragana''\<rparr>),
      (2, \<lparr>name = ''Grammar Garden'', category = ''grammar_basic'', unlock_requires = Some ''katakana''\<rparr>),
      (3, \<lparr>name = ''Vocabulary Village'', category = ''vocabulary_basic'', unlock_requires = Some ''grammar_basic''\<rparr>),
      (4, \<lparr>name = ''Verb Dojo'', category = ''verbs'', unlock_requires = Some ''vocabulary_basic''\<rparr>),
      (5, \<lparr>name = ''Kanji Castle N5'', category = ''kanji_n5'', unlock_requires = Some ''verbs''\<rparr>),
      (6, \<lparr>name = ''Listening Lake'', category = ''listening'', unlock_requires = Some ''kanji_n5''\<rparr>),
      (7, \<lparr>name = ''Grammar Grove'', category = ''grammar_intermediate'', unlock_requires = Some ''listening''\<rparr>),
      (8, \<lparr>name = ''Kanji Keep N4/N3'', category = ''kanji_intermediate'', unlock_requires = Some ''grammar_intermediate''\<rparr>),
      (9, \<lparr>name = ''Reading Realm'', category = ''reading'', unlock_requires = Some ''kanji_intermediate''\<rparr>),
      (10, \<lparr>name = ''Conversation Court'', category = ''conversation'', unlock_requires = Some ''reading''\<rparr>),
      (11, \<lparr>name = ''Advanced Academy'', category = ''advanced'', unlock_requires = Some ''conversation''\<rparr>),
      (12, \<lparr>name = ''Immersion Island'', category = ''immersion'', unlock_requires = Some ''advanced''\<rparr>)]"

definition TOTAL_MONUMENTS :: int where
  "TOTAL_MONUMENTS = int (length MONUMENTS)"

section \<open>save_system.py\<close>

text \<open>
  The names of the source's private helpers are kept without their leading underscore.
\<close>

definition default_mastered_characters :: json where
  "default_mastered_characters =
     JDict [(''hiragana'', JDict []), (''katakana'', JDict []), (''kanji'', JDict [])]"

definition default_save_data :: "int \<Rightarrow> dict" where
  "default_save_data slot =
     [(''slot'', JInt slot),
      (''player_name'', JStr []),
      (''character_appearance'',
         JDict [(''body_type'', JStr ''average''), (''hair_style'', JStr ''short''),
                (''hair_color'', JStr ''black''), (''eye_color'', JStr ''brown''),
                (''skin_tone'', JStr ''medium''), (''outfit_style'', JStr ''casual'')]),
      (''current_monument'', JInt 0),
      (''completed_lessons'', JList []),
      (''completed_minigames'', JList []),
      (''mastered_characters'', default_mastered_characters),
      (''vocabulary_learned'', JList []),
      (''grammar_learned'', JList []),
      (''total_play_time'', JFloat (Fin 0)),
      (''last_played'', JNull),
      (''difficulty'', JStr DEFAULT_DIFFICULTY)]"

text \<open>
  File names, relative to the save directory. \<open>str_of_int\<close> is the decimal text of an
  integer, as an f-string prints it.
\<close>

definition digit_char :: "nat \<Rightarrow> char" where
  "digit_char n = ''0123456789'' ! (n mod 10)"

function str_of_nat :: "nat \<Rightarrow> string" where
  "str_of_nat n = (if n < 10 then [digit_char n] else str_of_nat (n div 10) @ [digit_char n])"
  by pat_completeness auto
termination
  by (relation "measure id") auto

declare str_of_nat.simps [simp del]

definition str_of_int :: "int \<Rightarrow> string" where
  "str_of_int i = (if i < 0 then ''-'' @ str_of_nat (nat (- i)) else str_of_nat (nat i))"

definition slot_filename :: "int \<Rightarrow> string" where
  "slot_filename slot = ''save_slot_'' @ str_of_int slot @ ''.json''"

definition slot_filepath :: "int \<Rightarrow> string" where
  "slot_filepath slot = slot_filename slot"

definition backup_filepath :: "int \<Rightarrow> string" where
  "backup_filepath slot = ''save_slot_'' @ str_of_int slot @ ''.bak.json''"

text \<open>\<open>_validate_slot\<close>: ValueError for a slot number out of range.\<close>

definition validate_slot :: "int \<Rightarrow> error + unit" where
  "validate_slot slot = (if slot < 1 \<or> slot > MAX_SAVE_SLOTS then Inl ValueError else Inr ())"

text \<open>\<open>_validate_save_data\<close>, one definition for each of its steps.\<close>

definition fill_missing_keys :: "dict \<Rightarrow> dict \<Rightarrow> dict" where
  "fill_missing_keys template data =
     fold (\<lambda>(key, default_value) data.
             if \<not> has_key data key then dict_set data key default_value else data)
       template data"

definition repair_mastered_characters :: "dict \<Rightarrow> dict" where
  "repair_mastered_characters data =
     (case map_of data ''mastered_characters'' of
        Some (JDict mc) \<Rightarrow>
          dict_set data ''mastered_characters''
            (JDict (fold (\<lambda>sub_key mc.
                            if \<not> has_key mc sub_key \<or> \<not> is_dict (map_of mc sub_key)
                            then dict_set mc sub_key (JDict []) else mc)
                      [''hiragana'', ''katakana'', ''kanji''] mc))
      | _ \<Rightarrow> dict_set data ''mastered_characters'' default_mastered_characters)"

definition repair_lists :: "dict \<Rightarrow> dict" where
  "repair_lists data =
     fold (\<lambda>list_key data.
             if \<not> is_list (map_of data list_key) then dict_set data list_key (JList []) else data)
       [''completed_lessons'', ''completed_minigames'', ''vocabulary_learned'', ''grammar_learned'']
       data"

definition repair_numbers :: "dict \<Rightarrow> dict" where
  "repair_numbers data =
     (let data = (if \<not> is_int_or_float (map_of data ''total_play_time'')
                  then dict_set data ''total_play_time'' (JFloat (Fin 0)) else data)
      in if \<not> is_int (map_of data ''current_monument'')
         then dict_set data ''current_monument'' (JInt 0) else data)"

definition validate_save_data :: "dict \<Rightarrow> int \<Rightarrow> dict" where
  "validate_save_data data slot =
     (let template = default_save_data slot;
          data = fill_missing_keys template data;
          data = repair_mastered_characters data;
          data = repair_lists data;
          data = repair_numbers data
      in dict_set data ''slot'' (JInt slot))"

subsection \<open>The save directory and its faults\<close>

text \<open>
  The save directory maps a file name to the file's content. The content is kept as what
  \<open>json.load\<close> makes of it: the document it parses to, or \<open>Garbage\<close> for a text that
  does not parse (JSONDecodeError, UnicodeDecodeError). \<open>json.dump\<close> followed by
  \<open>json.load\<close> gives the dumped document back.

  The operating system may refuse a call. \<open>faults\<close> says which calls fail with OSError
  (for \<open>WriteBody\<close>: the document is cut off while it is written, by an OSError of the
  write or a TypeError/ValueError of the serialisation). A failed copy leaves the
  target as it was.
\<close>

datatype file_content = JsonText json | Garbage

type_synonym directory = "string \<Rightarrow> file_content option"

datatype os_call =
    Makedirs
  | Copy string string
  | OpenRead string
  | OpenWrite string
  | WriteBody string
  | Replace string string
  | Remove string

type_synonym faults = "os_call \<Rightarrow> bool"

definition no_faults :: faults where
  "no_faults call = False"

definition isfile :: "directory \<Rightarrow> string \<Rightarrow> bool" where
  "isfile fs path = (fs path \<noteq> None)"

text \<open>The \<open>except\<close> branch of \<open>save_game\<close>: remove the temporary file if it is there.\<close>

definition cleanup_tmp :: "faults \<Rightarrow> string \<Rightarrow> directory \<Rightarrow> directory" where
  "cleanup_tmp env tmp_path fs =
     (if isfile fs tmp_path then (if env (Remove tmp_path) then fs else fs(tmp_path := None))
      else fs)"

text \<open>
  \<open>save_game\<close>: \<open>now\<close> is the text of \<open>datetime.now(timezone.utc).isoformat()\<close>. The
  result is the returned flag, the caller's record as the call leaves it, and the
  directory.
\<close>

definition save_game ::
  "faults \<Rightarrow> string \<Rightarrow> int \<Rightarrow> dict \<Rightarrow> directory \<Rightarrow> error + (bool \<times> dict \<times> directory)" where
  "save_game env now slot data fs =
     (case validate_slot slot of
        Inl e \<Rightarrow> Inl e
      | Inr _ \<Rightarrow>
          if env Makedirs then Inl OSError
          else
            (let filepath = slot_filepath slot;
                 backup = backup_filepath slot;
                 data = dict_set data ''slot'' (JInt slot);
                 data = dict_set data ''last_played'' (JStr now);
                 fs = (if isfile fs filepath \<and> \<not> env (Copy filepath backup)
                       then fs(backup := fs filepath) else fs);
                 tmp_path = filepath @ ''.tmp''
             in if env (OpenWrite tmp_path) then Inr (False, data, cleanup_tmp env tmp_path fs)
                else if env (WriteBody tmp_path)
                  then Inr (False, data, cleanup_tmp env tmp_path (fs(tmp_path := Some Garbage)))
                else
                  (let fs = fs(tmp_path := Some (JsonText (JDict data)))
                   in if env (Replace tmp_path filepath)
                      then Inr (False, data, cleanup_tmp env tmp_path fs)
                      else Inr (True, data, fs(filepath := fs tmp_path, tmp_path := None)))))"

text \<open>
  The loop of \<open>load_game\<close> over the primary and the backup file. An OSError of \<open>open\<close>
  or of the nested \<open>save_game\<close> is not among the caught exceptions and leaves the
  function; a caught exception goes on to the next file.
\<close>

fun load_from ::
  "faults \<Rightarrow> string \<Rightarrow> int \<Rightarrow> (string \<times> string) list \<Rightarrow> directory
     \<Rightarrow> error + (dict option \<times> directory)" where
  "load_from env now slot [] fs = Inr (None, fs)"
| "load_from env now slot ((path, label) # rest) fs =
     (if \<not> isfile fs path then load_from env now slot rest fs
      else if env (OpenRead path) then Inl OSError
      else
        (case fs path of
           Some (JsonText (JDict data)) \<Rightarrow>
             (let data = validate_save_data data slot
              in if label = ''backup'' then
                   (case save_game env now slot data fs of
                      Inl e \<Rightarrow>
                        if e \<in> {ValueError, KeyError, TypeError}
                        then load_from env now slot rest fs else Inl e
                    | Inr (_, data, fs) \<Rightarrow> Inr (Some data, fs))
                 else Inr (Some data, fs))
         | _ \<Rightarrow> load_from env now slot rest fs))"

definition load_game ::
  "faults \<Rightarrow> string \<Rightarrow> int \<Rightarrow> directory \<Rightarrow> error + (dict option \<times> directory)" where
  "load_game env now slot fs =
     (case validate_slot slot of
        Inl e \<Rightarrow> Inl e
      | Inr _ \<Rightarrow>
          load_from env now slot
            [(slot_filepath slot, ''primary''), (backup_filepath slot, ''backup'')] fs)"

definition does_save_exist :: "int \<Rightarrow> directory \<Rightarrow> error + bool" where
  "does_save_exist slot fs =
     (case validate_slot slot of Inl e \<Rightarrow> Inl e | Inr _ \<Rightarrow> Inr (isfile fs (slot_filepath slot)))"

section \<open>game_manager.py: monument unlocking\<close>

definition UNLOCK_CHAIN :: "(int \<times> string option) list" where
  "UNLOCK_CHAIN = map (\<lambda>(mid, mdata). (mid, unlock_requires mdata)) MONUMENTS"

text \<open>
  Iterating a value: the elements of a list, the characters of a string, the keys of a
  dictionary; TypeError for anything else.
\<close>

fun iterate :: "json \<Rightarrow> error + json list" where
  "iterate (JList xs) = Inr xs"
| "iterate (JStr s) = Inr (map (\<lambda>c. JStr [c]) s)"
| "iterate (JDict d) = Inr (map (\<lambda>(k, v). JStr k) d)"
| "iterate _ = Inl TypeError"

text \<open>
  \<open>any(x.startswith(prefix) for x in xs)\<close>: stops at the first match; an element before
  it that is no string has no \<open>startswith\<close> (AttributeError).
\<close>

fun any_startswith :: "string \<Rightarrow> json list \<Rightarrow> error + bool" where
  "any_startswith prefix [] = Inr False"
| "any_startswith prefix (JStr s # xs) =
     (if startswith s prefix then Inr True else any_startswith prefix xs)"
| "any_startswith prefix (_ # xs) = Inl AttributeError"

definition category_minigames_complete :: "string \<Rightarrow> json \<Rightarrow> error + bool" where
  "category_minigames_complete cat completed =
     (let prefix = cat @ ''_''
      in case iterate completed of Inl e \<Rightarrow> Inl e | Inr xs \<Rightarrow> any_startswith prefix xs)"

text \<open>\<open>GameManager.is_monument_unlocked\<close>; the first argument is the manager's \<open>_save_data\<close>.\<close>

definition is_monument_unlocked :: "dict option \<Rightarrow> int \<Rightarrow> error + bool" where
  "is_monument_unlocked save_data monument_id =
     (if monument_id < 0 \<or> monument_id \<ge> TOTAL_MONUMENTS then Inr False
      else if monument_id = 0 then Inr True
      else case save_data of
             None \<Rightarrow> Inr False
           | Some data \<Rightarrow>
               (case map_of UNLOCK_CHAIN monument_id of
                  None \<Rightarrow> Inr True
                | Some None \<Rightarrow> Inr True
                | Some (Some required_category) \<Rightarrow>
                    (let completed = (case map_of data ''completed_minigames'' of
                                        Some v \<Rightarrow> v | None \<Rightarrow> JList [])
                     in category_minigames_complete required_category completed)))"

text \<open>The stage and the streak counter after a sequence of calls.\<close>

definition streak_after :: "answer list \<Rightarrow> SRSItem \<Rightarrow> error + (MasteryStage \<times> int)" where
  "streak_after as self = map_sum id (\<lambda>it. (stage it, consecutive_correct it)) (record_answers as self)"

section \<open>Properties of the SRS state machine\<close>

lemma stage_value_inject: "stage_value s = stage_value t \<Longrightarrow> s = t"
  by (cases s; cases t) simp_all

lemma stage_value_bounds: "0 \<le> stage_value s \<and> stage_value s \<le> 3"
  by (cases s) simp_all

lemma record_answer_wrong:
  "\<exists>it. record_answer now False k m self = Inr (stage it, it)
      \<and> item_id it = item_id self
      \<and> consecutive_correct it = 0
      \<and> stage_value (stage it) = (if stage self = NEW then 0 else stage_value (stage self) - 1)
      \<and> total_correct it = total_correct self
      \<and> total_attempts it = total_attempts self + 1"
  by (cases "stage self") (simp_all add: record_answer_def update_stage_def MasteryStage_of_def Let_def)

lemma record_answer_right:
  "\<exists>it. record_answer now True k m self = Inr (stage it, it)
      \<and> item_id it = item_id self
      \<and> total_correct it = total_correct self + 1
      \<and> total_attempts it = total_attempts self + 1
      \<and> (if k \<le> consecutive_correct self + 1 \<and> stage self \<noteq> MASTERED
          then stage_value (stage it) = stage_value (stage self) + 1 \<and> consecutive_correct it = 0
          else stage it = stage self \<and> consecutive_correct it = consecutive_correct self + 1)"
  by (cases "stage self") (simp_all add: record_answer_def update_stage_def MasteryStage_of_def Let_def)

lemma record_answers_append:
  "record_answers (xs @ ys) self =
     (case record_answers xs self of Inl e \<Rightarrow> Inl e | Inr it \<Rightarrow> record_answers ys it)"
  by (induction xs arbitrary: self) (auto split: sum.splits)

lemma record_answers_single:
  "record_answers [a] self =
     map_sum id snd (record_answer (at_time a) (is_correct a) (threshold a) (interval_mult a) self)"
  by (auto split: sum.splits)

text \<open>
  While the streak stays below the threshold, correct answers only count up: the stage
  does not move.
\<close>

lemma streak_builds:
  assumes "\<forall>a \<in> set as. is_correct a \<and> threshold a = k"
    and "consecutive_correct self + int (length as) < k"
  shows "\<exists>it. record_answers as self = Inr it \<and> stage it = stage self
           \<and> item_id it = item_id self
           \<and> consecutive_correct it = consecutive_correct self + int (length as)
           \<and> total_correct it = total_correct self + int (length as)
           \<and> total_attempts it = total_attempts self + int (length as)"
  using assms
proof (induction as arbitrary: self)
  case Nil
  then show ?case by simp
next
  case (Cons a as)
  from Cons.prems have a: "is_correct a" "threshold a = k"
    and below: "\<not> k \<le> consecutive_correct self + 1" by auto
  from record_answer_right [of "at_time a" k "interval_mult a" self] below
  obtain it where step: "record_answer (at_time a) True k (interval_mult a) self = Inr (stage it, it)"
    and it: "stage it = stage self" "item_id it = item_id self"
      "consecutive_correct it = consecutive_correct self + 1"
      "total_correct it = total_correct self + 1" "total_attempts it = total_attempts self + 1"
    by auto
  have "\<exists>it'. record_answers as it = Inr it' \<and> stage it' = stage it
           \<and> item_id it' = item_id it
           \<and> consecutive_correct it' = consecutive_correct it + int (length as)
           \<and> total_correct it' = total_correct it + int (length as)
           \<and> total_attempts it' = total_attempts it + int (length as)"
    using Cons.prems it by (intro Cons.IH) auto
  then show ?case using a step it by auto
qed

text \<open>The answer that brings the streak to the threshold promotes an item below \<open>mastered\<close>.\<close>

lemma streak_promotes:
  assumes "\<forall>a \<in> set as. is_correct a \<and> threshold a = k"
    and "consecutive_correct self + int (length as) = k" and "as \<noteq> []"
    and "stage self \<noteq> MASTERED"
  shows "\<exists>it. record_answers as self = Inr it
           \<and> stage_value (stage it) = stage_value (stage self) + 1
           \<and> consecutive_correct it = 0"
proof -
  from \<open>as \<noteq> []\<close> obtain bs b where as: "as = bs @ [b]"
    by (cases as rule: rev_cases) auto
  have b: "is_correct b" "threshold b = k" using assms(1) as by auto
  have "\<exists>it. record_answers bs self = Inr it \<and> stage it = stage self
           \<and> item_id it = item_id self
           \<and> consecutive_correct it = consecutive_correct self + int (length bs)
           \<and> total_correct it = total_correct self + int (length bs)
           \<and> total_attempts it = total_attempts self + int (length bs)"
    using assms(1,2) as by (intro streak_builds) auto
  then obtain it where bs: "record_answers bs self = Inr it" and it: "stage it = stage self"
    "consecutive_correct it = consecutive_correct self + int (length bs)" by auto
  have "k \<le> consecutive_correct it + 1 \<and> stage it \<noteq> MASTERED"
    using it assms(2,4) as by simp
  with record_answer_right [of "at_time b" k "interval_mult b" it]
  obtain it' where "record_answer (at_time b) True k (interval_mult b) it = Inr (stage it', it')"
    "stage_value (stage it') = stage_value (stage it) + 1" "consecutive_correct it' = 0"
    by auto
  then show ?thesis
    using bs b it by (simp add: as record_answers_append)
qed

text \<open>
  C3 (as stated, refuted at threshold 1): with \<open>consecutive_to_master = 1\<close> the second
  correct answer does not leave a streak of 1 at stage \<open>learning\<close>; it promotes the item
  again, to \<open>review\<close>, and the streak is 0.
\<close>

theorem srs_promotion_threshold_one_counterexample:
  "streak_after
     [\<lparr>at_time = Fin 0, is_correct = True, threshold = 1, interval_mult = Fin 1\<rparr>,
      \<lparr>at_time = Fin 0, is_correct = True, threshold = 1, interval_mult = Fin 1\<rparr>]
     (SRSItem_init ''a'') = Inr (REVIEW, 0)
   \<and> Inr (REVIEW, 0) \<noteq> (Inr (LEARNING, 1) :: error + (MasteryStage \<times> int))"
  by (simp add: streak_after_def record_answer_def update_stage_def MasteryStage_of_def
      SRSItem_init_def Let_def)

text \<open>
  C3 (amended): for every threshold \<open>k \<ge> 1\<close>, exactly \<open>k\<close> correct answers with
  \<open>consecutive_to_master = k\<close> take a fresh item to stage \<open>learning\<close> with the streak
  reset to 0. The next correct answer leaves the stage at \<open>learning\<close> with a streak of 1
  when \<open>k \<ge> 2\<close>; when \<open>k = 1\<close> it promotes the item again (to \<open>review\<close>, streak 0).
\<close>

theorem srs_promotion:
  assumes "1 \<le> k" and "int (length as) = k"
    and "\<forall>a \<in> set (as @ [b]). is_correct a \<and> threshold a = k"
  shows "streak_after as (SRSItem_init iid) = Inr (LEARNING, 0)
       \<and> streak_after (as @ [b]) (SRSItem_init iid)
           = Inr (if k = 1 then (REVIEW, 0) else (LEARNING, 1))"
proof -
  let ?fresh = "SRSItem_init iid"
  have fresh: "stage ?fresh = NEW" "consecutive_correct ?fresh = 0"
    by (simp_all add: SRSItem_init_def)
  have "as \<noteq> []" using assms(1,2) by auto
  with streak_promotes [of as k ?fresh] assms fresh
  obtain it where run: "record_answers as ?fresh = Inr it"
    and it: "stage_value (stage it) = 1" "consecutive_correct it = 0" by auto
  from it(1) have st: "stage it = LEARNING" by (cases "stage it") simp_all
  have b: "is_correct b" "threshold b = k" using assms(3) by auto
  from record_answer_right [of "at_time b" k "interval_mult b" it]
  obtain it' where step: "record_answer (at_time b) True k (interval_mult b) it = Inr (stage it', it')"
    and it': "if k \<le> 1
          then stage_value (stage it') = 2 \<and> consecutive_correct it' = 0
          else stage it' = LEARNING \<and> consecutive_correct it' = 1"
    using it st by auto
  have "stage it' = REVIEW" if "k = 1"
    using it' that by (cases "stage it'") simp_all
  then have last: "(stage it', consecutive_correct it') = (if k = 1 then (REVIEW, 0) else (LEARNING, 1))"
    using it' assms(1) by auto
  show ?thesis
    using run st it(2) step b last
    by (simp add: streak_after_def record_answers_append)
qed

theorem srs_promotion_witness:
  "streak_after
     [\<lparr>at_time = Fin 0, is_correct = True, threshold = 2, interval_mult = Fin 1\<rparr>,
      \<lparr>at_time = Fin 5, is_correct = True, threshold = 2, interval_mult = Fin 1\<rparr>]
     (SRSItem_init ''a'') = Inr (LEARNING, 0)
   \<and> streak_after
     ([\<lparr>at_time = Fin 0, is_correct = True, threshold = 2, interval_mult = Fin 1\<rparr>,
       \<lparr>at_time = Fin 5, is_correct = True, threshold = 2, interval_mult = Fin 1\<rparr>]
      @ [\<lparr>at_time = Fin 9, is_correct = True, threshold = 2, interval_mult = Fin 1\<rparr>])
     (SRSItem_init ''a'') = Inr (LEARNING, 1)"
  using srs_promotion [of 2
      "[\<lparr>at_time = Fin 0, is_correct = True, threshold = 2, interval_mult = Fin 1\<rparr>,
        \<lparr>at_time = Fin 5, is_correct = True, threshold = 2, interval_mult = Fin 1\<rparr>]"
      "\<lparr>at_time = Fin 9, is_correct = True, threshold = 2, interval_mult = Fin 1\<rparr>" "''a''"]
  by simp

text \<open>
  C4: a single incorrect answer, on an item in any state and whatever the streak was,
  returns the new stage, sets the streak to 0 and lowers the stage by exactly one when it
  is above \<open>new\<close>; at \<open>new\<close> the stage stays \<open>new\<close>.
\<close>

theorem srs_demotion:
  "\<exists>it. record_answer now False k m self = Inr (stage it, it)
      \<and> consecutive_correct it = 0
      \<and> stage_value (stage it) = (if stage self = NEW then 0 else stage_value (stage self) - 1)
      \<and> stage_value (stage it) \<ge> stage_value NEW"
  using record_answer_wrong [of now k m self] stage_value_bounds by auto

theorem srs_demotion_witness:
  "\<exists>it. record_answer (Fin 7) False 5 (Fin 1)
          \<lparr>item_id = ''a'', stage = REVIEW, consecutive_correct = 4, total_correct = 9,
           total_attempts = 11, last_reviewed = Fin 3, next_review = Fin 4\<rparr> = Inr (stage it, it)
      \<and> consecutive_correct it = 0 \<and> stage it = LEARNING"
proof -
  let ?self = "\<lparr>item_id = ''a'', stage = REVIEW, consecutive_correct = 4, total_correct = 9,
           total_attempts = 11, last_reviewed = Fin 3, next_review = Fin 4\<rparr>"
  from srs_demotion [of "Fin 7" 5 "Fin 1" ?self]
  obtain it where it: "record_answer (Fin 7) False 5 (Fin 1) ?self = Inr (stage it, it)"
    "consecutive_correct it = 0" "stage_value (stage it) = 1" by auto
  from it(3) have "stage it = LEARNING" by (cases "stage it") simp_all
  with it show ?thesis by blast
qed

text \<open>
  C5: whatever the sequence of calls (answers, thresholds, multipliers, clock readings)
  applied to a fresh item, no call raises, and after every call (after the first \<open>n\<close>
  calls, for every \<open>n\<close>) the stage lies between \<open>new\<close> (0) and \<open>mastered\<close> (3) and
  \<open>total_correct \<le> total_attempts\<close>.
\<close>

lemma record_answer_keeps_counts:
  assumes "total_correct self \<le> total_attempts self"
  shows "\<exists>it. record_answer now c k m self = Inr (stage it, it)
           \<and> total_correct it \<le> total_attempts it"
proof (cases c)
  case True
  with record_answer_right [of now k m self] assms show ?thesis by auto
next
  case False
  with record_answer_wrong [of now k m self] assms show ?thesis by auto
qed

lemma record_answers_keep_counts:
  "total_correct self \<le> total_attempts self \<Longrightarrow>
   \<exists>it. record_answers as self = Inr it \<and> total_correct it \<le> total_attempts it"
proof (induction as arbitrary: self)
  case Nil
  then show ?case by simp
next
  case (Cons a as)
  from record_answer_keeps_counts [OF Cons.prems]
  obtain it where "record_answer (at_time a) (is_correct a) (threshold a) (interval_mult a) self
      = Inr (stage it, it)" "total_correct it \<le> total_attempts it" by blast
  with Cons.IH [of it] show ?case by auto
qed

theorem srs_bounds_invariant:
  "\<exists>it. record_answers (take n as) (SRSItem_init iid) = Inr it
      \<and> stage_value NEW \<le> stage_value (stage it)
      \<and> stage_value (stage it) \<le> stage_value MASTERED
      \<and> total_correct it \<le> total_attempts it"
proof -
  have "total_correct (SRSItem_init iid) \<le> total_attempts (SRSItem_init iid)"
    by (simp add: SRSItem_init_def)
  from record_answers_keep_counts [OF this, of "take n as"]
  show ?thesis using stage_value_bounds by auto
qed

text \<open>
  C10: on an item at stage \<open>mastered\<close>, every further correct answer (whatever its
  threshold) leaves the stage at \<open>mastered\<close> and adds 1 to the streak, which is never
  reset: after \<open>n\<close> correct answers the streak has grown by \<open>n\<close>.
\<close>

theorem mastered_streak_unbounded:
  assumes "stage self = MASTERED" and "\<forall>a \<in> set as. is_correct a"
  shows "streak_after as self = Inr (MASTERED, consecutive_correct self + int (length as))"
  using assms
proof (induction as arbitrary: self)
  case Nil
  then show ?case by (simp add: streak_after_def)
next
  case (Cons a as)
  from record_answer_right [of "at_time a" "threshold a" "interval_mult a" self] Cons.prems(1)
  obtain it where step: "record_answer (at_time a) True (threshold a) (interval_mult a) self
      = Inr (stage it, it)"
    and it: "stage it = MASTERED" "consecutive_correct it = consecutive_correct self + 1"
    by auto
  have "streak_after as it = Inr (MASTERED, consecutive_correct it + int (length as))"
    using Cons.prems(2) it(1) by (intro Cons.IH) auto
  then show ?case using step it Cons.prems(2) by (simp add: streak_after_def)
qed

theorem mastered_streak_unbounded_witness:
  "streak_after
     [\<lparr>at_time = Fin 1, is_correct = True, threshold = 3, interval_mult = Fin 1\<rparr>,
      \<lparr>at_time = Fin 2, is_correct = True, threshold = 3, interval_mult = Fin 1\<rparr>,
      \<lparr>at_time = Fin 3, is_correct = True, threshold = 3, interval_mult = Fin 1\<rparr>,
      \<lparr>at_time = Fin 4, is_correct = True, threshold = 3, interval_mult = Fin 1\<rparr>]
     \<lparr>item_id = ''a'', stage = MASTERED, consecutive_correct = 0, total_correct = 9,
      total_attempts = 9, last_reviewed = Fin 0, next_review = Fin 0\<rparr> = Inr (MASTERED, 4)"
  using mastered_streak_unbounded [of
      "\<lparr>item_id = ''a'', stage = MASTERED, consecutive_correct = 0, total_correct = 9,
        total_attempts = 9, last_reviewed = Fin 0, next_review = Fin 0\<rparr>"
      "[\<lparr>at_time = Fin 1, is_correct = True, threshold = 3, interval_mult = Fin 1\<rparr>,
        \<lparr>at_time = Fin 2, is_correct = True, threshold = 3, interval_mult = Fin 1\<rparr>,
        \<lparr>at_time = Fin 3, is_correct = True, threshold = 3, interval_mult = Fin 1\<rparr>,
        \<lparr>at_time = Fin 4, is_correct = True, threshold = 3, interval_mult = Fin 1\<rparr>]"]
  by simp

end
